theory Spec2Isabelle
  imports Main "HOL-Library.Sublist"
begin

section \<open>Strings\<close>

text \<open>
  A JavaScript string is a sequence of UTF-16 code units. The model takes a \<^typ>\<open>string\<close>
  to be such a sequence with every code unit below 256, so that \<^const>\<open>length\<close> is the
  \<^verbatim>\<open>length\<close> property and each \<^typ>\<open>char\<close> is one code unit. The string methods of
  the platform that the media classifier and the path validator call are defined on that
  range.
\<close>

definition code_unit :: "char \<Rightarrow> nat" where
  "code_unit c = of_char c"

definition bslash :: char where
  "bslash = CHR 0x5C"

definition dquote :: char where
  "dquote = CHR 0x22"

definition newline :: string where
  "newline = [CHR 0x0A]"

text \<open>
  \<^verbatim>\<open>String.prototype.toLowerCase\<close>: below 256 the capital letters are A to Z and the
  Latin-1 capitals 0xC0 to 0xDE without the multiplication sign 0xD7; each has its small
  letter 32 places further, which is the same code unit with bit 5 set.
\<close>

definition is_capital :: "char \<Rightarrow> bool" where
  "is_capital c =
     (let n = code_unit c
      in (65 \<le> n \<and> n \<le> 90) \<or> (192 \<le> n \<and> n \<le> 222 \<and> n \<noteq> 215))"

definition set_bit5 :: "char \<Rightarrow> char" where
  "set_bit5 c = (case c of Char b0 b1 b2 b3 b4 b5 b6 b7 \<Rightarrow> Char b0 b1 b2 b3 b4 True b6 b7)"

definition lower_char :: "char \<Rightarrow> char" where
  "lower_char c = (if is_capital c then set_bit5 c else c)"

definition toLowerCase :: "string \<Rightarrow> string" where
  "toLowerCase s = map lower_char s"

text \<open>
  White space and line terminators of the language below 256: TAB, LF, VT, FF, CR, SPACE
  and the no-break space. \<^verbatim>\<open>trim\<close> removes them at both ends.
\<close>

definition is_space :: "char \<Rightarrow> bool" where
  "is_space c = (c \<in> set [CHR 0x09, CHR 0x0A, CHR 0x0B, CHR 0x0C, CHR 0x0D, CHR 0x20, CHR 0xA0])"

definition trim :: "string \<Rightarrow> string" where
  "trim s = rev (dropWhile is_space (rev (dropWhile is_space s)))"

text \<open>
  \<^verbatim>\<open>s.split(sep)\<close> for a one-character separator: the pieces between the separators, in
  order; the empty string gives one empty piece. The array is never empty, so
  \<^verbatim>\<open>pop()\<close> on it is its last element.
\<close>

fun split :: "char \<Rightarrow> string \<Rightarrow> string list" where
  "split sep [] = [[]]"
| "split sep (c # cs) =
     (if c = sep then [] # split sep cs
      else (case split sep cs of w # ws \<Rightarrow> (c # w) # ws | [] \<Rightarrow> [[c]]))"

definition pop :: "string list \<Rightarrow> string" where
  "pop pieces = last pieces"

text \<open>\<^verbatim>\<open>s.includes(t)\<close> for a one-character \<open>t\<close>.\<close>

definition includes_char :: "string \<Rightarrow> char \<Rightarrow> bool" where
  "includes_char s c = (c \<in> set s)"


section \<open>Regular expressions\<close>

text \<open>
  The patterns of the path validator use character classes, sequence, bounded
  repetition, \<^verbatim>\<open>*\<close> and \<^verbatim>\<open>+\<close>, with \<^verbatim>\<open>^\<close> only at the very start of a pattern
  and \<^verbatim>\<open>$\<close> only at its very end. \<^verbatim>\<open>RegExp.prototype.test\<close> asks whether some part of
  the string matches, so the greedy order of the matcher plays no role and a pattern is
  its language. Matching is by derivatives.
\<close>

datatype rx = Never | Empty | Class "char \<Rightarrow> bool" | Then rx rx | Or rx rx | Many rx

fun nullable :: "rx \<Rightarrow> bool" where
  "nullable Never = False"
| "nullable Empty = True"
| "nullable (Class P) = False"
| "nullable (Then a b) = (nullable a \<and> nullable b)"
| "nullable (Or a b) = (nullable a \<or> nullable b)"
| "nullable (Many a) = True"

fun deriv :: "char \<Rightarrow> rx \<Rightarrow> rx" where
  "deriv c Never = Never"
| "deriv c Empty = Never"
| "deriv c (Class P) = (if P c then Empty else Never)"
| "deriv c (Then a b) =
     (if nullable a then Or (Then (deriv c a) b) (deriv c b) else Then (deriv c a) b)"
| "deriv c (Or a b) = Or (deriv c a) (deriv c b)"
| "deriv c (Many a) = Then (deriv c a) (Many a)"

fun matches :: "rx \<Rightarrow> string \<Rightarrow> bool" where
  "matches r [] = nullable r"
| "matches r (c # cs) = matches (deriv c r) cs"

text \<open>The words of a pattern, as the reference semantics of the matcher.\<close>

inductive_set star :: "string set \<Rightarrow> string set" for A :: "string set" where
  star_nil: "[] \<in> star A"
| star_app: "u \<in> A \<Longrightarrow> v \<in> star A \<Longrightarrow> u @ v \<in> star A"

fun lang :: "rx \<Rightarrow> string set" where
  "lang Never = {}"
| "lang Empty = {[]}"
| "lang (Class P) = {[c] | c. P c}"
| "lang (Then a b) = {u @ v | u v. u \<in> lang a \<and> v \<in> lang b}"
| "lang (Or a b) = lang a \<union> lang b"
| "lang (Many a) = star (lang a)"

text \<open>The pieces of pattern syntax that occur in the source.\<close>

definition any_unit :: rx where
  "any_unit = Class (\<lambda>c. True)"

definition one_of :: "string \<Rightarrow> rx" where
  "one_of cs = Class (\<lambda>c. c \<in> set cs)"

definition none_of :: "string \<Rightarrow> rx" where
  "none_of cs = Class (\<lambda>c. c \<notin> set cs)"

definition some :: "rx \<Rightarrow> rx" where
  "some r = Then r (Many r)"

definition seq :: "rx list \<Rightarrow> rx" where
  "seq rs = foldr Then rs Empty"

definition lit :: "string \<Rightarrow> rx" where
  "lit s = seq (map (\<lambda>c. Class (\<lambda>x. x = c)) s)"

text \<open>
  Under the \<^verbatim>\<open>i\<close> flag (without \<^verbatim>\<open>u\<close>) two code units match when their canonical forms
  agree; the canonical form of a to z is A to Z, and a code unit from 128 on never gets a
  canonical form below 128. Every literal of the source's \<^verbatim>\<open>i\<close> patterns is an ASCII
  letter, so a code unit matches it exactly when the two agree after folding A to Z onto
  a to z.
\<close>

definition fold_ascii :: "char \<Rightarrow> char" where
  "fold_ascii c = (let n = code_unit c in if 65 \<le> n \<and> n \<le> 90 then set_bit5 c else c)"

definition lit_i :: "string \<Rightarrow> rx" where
  "lit_i s = seq (map (\<lambda>c. Class (\<lambda>x. fold_ascii x = fold_ascii c)) s)"

definition digit :: rx where
  "digit = one_of ''0123456789''"

definition space :: rx where
  "space = Class is_space"

definition dot :: rx where
  "dot = none_of [CHR 0x0A, CHR 0x0D]"

definition letter :: rx where
  "letter = one_of ''abcdefghijklmnopqrstuvwxyzABCDEFGHIJKLMNOPQRSTUVWXYZ''"

definition separator :: rx where
  "separator = one_of [CHR ''/'', bslash]"

record pattern =
  from_start :: bool
  body :: rx
  to_end :: bool

definition test :: "pattern \<Rightarrow> string \<Rightarrow> bool" where
  "test p s =
     matches (Then (if from_start p then Empty else Many any_unit)
               (Then (body p) (if to_end p then Empty else Many any_unit))) s"

definition anywhere :: "rx \<Rightarrow> pattern" where
  "anywhere r = \<lparr>from_start = False, body = r, to_end = False\<rparr>"

definition at_start :: "rx \<Rightarrow> pattern" where
  "at_start r = \<lparr>from_start = True, body = r, to_end = False\<rparr>"

definition at_end :: "rx \<Rightarrow> pattern" where
  "at_end r = \<lparr>from_start = False, body = r, to_end = True\<rparr>"

definition whole :: "rx \<Rightarrow> pattern" where
  "whole r = \<lparr>from_start = True, body = r, to_end = True\<rparr>"


section \<open>Media classifier\<close>

record file_handle =
  name :: string
  webkitRelativePath :: string

text \<open>\<^verbatim>\<open>filename.split('.').pop().toLowerCase()\<close>, as all three functions below compute it.\<close>

definition extension_of :: "string \<Rightarrow> string" where
  "extension_of filename = toLowerCase (pop (split (CHR ''.'') filename))"

definition mediaExtensions :: "string list" where
  "mediaExtensions =
     [''mp4'', ''avi'', ''mkv'', ''mov'', ''webm'', ''wmv'', ''flv'', ''m4v'',
      ''mp3'', ''wav'', ''flac'', ''ogg'', ''aac'', ''m4a'', ''wma'',
      ''jpg'', ''jpeg'', ''png'', ''gif'', ''bmp'', ''webp'', ''svg'', ''tiff'']"

definition filterMediaFiles :: "file_handle list \<Rightarrow> file_handle list" where
  "filterMediaFiles files =
     filter (\<lambda>f. let extension = extension_of (name f)
                 in extension \<in> set mediaExtensions) files"

definition getMediaTypeFromFilename :: "string \<Rightarrow> string" where
  "getMediaTypeFromFilename filename =
     (let extension = extension_of filename
      in if extension \<in> set [''mp4'', ''avi'', ''mkv'', ''mov'', ''webm''] then ''video''
         else if extension \<in> set [''mp3'', ''wav'', ''flac'', ''ogg'', ''aac''] then ''audio''
         else if extension \<in> set [''jpg'', ''jpeg'', ''png'', ''gif'', ''bmp'', ''webp''] then ''image''
         else ''unknown'')"

definition getMimeType :: "string \<Rightarrow> string \<Rightarrow> string" where
  "getMimeType mediaType filename =
     (let extension = extension_of filename
      in if mediaType = ''video'' then
           (if extension = ''mp4'' then ''video/mp4''
            else if extension = ''avi'' then ''video/x-msvideo''
            else if extension = ''mkv'' then ''video/x-matroska''
            else if extension = ''mov'' then ''video/quicktime''
            else if extension = ''webm'' then ''video/webm''
            else ''video/mp4'')
         else if mediaType = ''audio'' then
           (if extension = ''mp3'' then ''audio/mpeg''
            else if extension = ''wav'' then ''audio/wav''
            else if extension = ''flac'' then ''audio/flac''
            else if extension = ''ogg'' then ''audio/ogg''
            else if extension = ''aac'' then ''audio/aac''
            else ''audio/mpeg'')
         else if mediaType = ''image'' then
           (if extension = ''jpg'' \<or> extension = ''jpeg'' then ''image/jpeg''
            else if extension = ''png'' then ''image/png''
            else if extension = ''gif'' then ''image/gif''
            else if extension = ''bmp'' then ''image/bmp''
            else if extension = ''webp'' then ''image/webp''
            else ''image/jpeg'')
         else ''application/octet-stream'')"

text \<open>
  The specification's wording of the classifier, to compare the code with: the extension
  is what follows the last dot (the whole name when it has none), lowercased, and there
  are three sets of recognised extensions.
\<close>

definition spec_extension :: "string \<Rightarrow> string" where
  "spec_extension filename =
     toLowerCase (rev (takeWhile (\<lambda>c. c \<noteq> CHR ''.'') (rev filename)))"

definition spec_video :: "string set" where
  "spec_video = {''mp4'', ''avi'', ''mkv'', ''mov'', ''webm'', ''wmv'', ''flv'', ''m4v''}"

definition spec_audio :: "string set" where
  "spec_audio = {''mp3'', ''wav'', ''flac'', ''ogg'', ''aac'', ''m4a'', ''wma''}"

definition spec_image :: "string set" where
  "spec_image = {''jpg'', ''jpeg'', ''png'', ''gif'', ''bmp'', ''webp'', ''svg'', ''tiff''}"


section \<open>Path validator\<close>

definition invalidPatterns :: "pattern list" where
  "invalidPatterns =
     [anywhere (seq [some digit, some space, lit_i ''media'', some space, lit_i ''file'']),
      anywhere (seq [lit_i ''file'', Many dot, lit_i ''selected'']),
      anywhere (lit_i ''selected''),
      whole (Many (none_of [bslash, CHR ''/'']))]"

definition pathLikePatterns :: "pattern list" where
  "pathLikePatterns =
     [at_start (seq [letter, lit '':'', lit [bslash]]),
      at_start (seq [letter, lit '':'', separator]),
      at_start (seq [lit ''/'', none_of ''/'']),
      at_start (seq [Or (lit ''.'') (lit ''..''), separator]),
      at_start (seq [some (none_of [CHR ''/'', bslash]), separator]),
      at_end (lit ''test_media''),
      at_start (seq [Many dot, separator, Many dot, separator]),
      whole (seq [letter, lit '':'', lit [bslash], Many dot, lit [bslash], Many dot]),
      whole (seq [lit ''C:'', lit [bslash], lit ''Users'', lit [bslash], Many dot,
                  lit [bslash], Many dot]),
      anywhere (lit_i ''OneDrive''),
      anywhere (lit_i ''Pictures''),
      anywhere (lit_i ''Documents''),
      anywhere (lit_i ''Downloads'')]"

text \<open>
  The loop over \<^verbatim>\<open>invalidPatterns\<close> returns false at the first pattern that matches a
  path shorter than 10; \<^verbatim>\<open>Array.prototype.some\<close> is \<^const>\<open>list_ex\<close>.
\<close>

fun rejected_by :: "pattern list \<Rightarrow> string \<Rightarrow> bool" where
  "rejected_by [] path = False"
| "rejected_by (p # ps) path =
     (if test p path \<and> length path < 10 then True else rejected_by ps path)"

definition isValidDirectoryPath :: "string \<Rightarrow> bool" where
  "isValidDirectoryPath path0 =
     (if path0 = [] then False
      else
        let path = trim path0
        in if rejected_by invalidPatterns path then False
           else
             let hasPathSeparators = (includes_char path bslash \<or> includes_char path (CHR ''/''));
                 isLongEnough = (length path > 3)
             in list_ex (\<lambda>p. test p path) pathLikePatterns
                \<or> (hasPathSeparators \<and> isLongEnough))"


section \<open>Values, objects and the platform\<close>

text \<open>
  The values that travel between the controllers and the backend are JSON values, plus
  \<^verbatim>\<open>undefined\<close> for a property that is not there. Numbers are integers here: the code
  looks at a number only to ask whether it is zero. An object is its list of entries,
  and the first entry for a key is the value of that key.
\<close>

datatype jsval =
    JUndefined
  | JNull
  | JBool bool
  | JNum int
  | JStr string
  | JArr "jsval list"
  | JObj "(string \<times> jsval) list"

type_synonym object = "(string \<times> jsval) list"

fun truthy :: "jsval \<Rightarrow> bool" where
  "truthy JUndefined = False"
| "truthy JNull = False"
| "truthy (JBool b) = b"
| "truthy (JNum n) = (n \<noteq> 0)"
| "truthy (JStr s) = (s \<noteq> [])"
| "truthy (JArr xs) = True"
| "truthy (JObj es) = True"

text \<open>\<^verbatim>\<open>a || b\<close>\<close>

definition or_else :: "jsval \<Rightarrow> jsval \<Rightarrow> jsval" where
  "or_else a b = (if truthy a then a else b)"

definition field :: "object \<Rightarrow> string \<Rightarrow> jsval" where
  "field obj k = (case map_of obj k of Some v \<Rightarrow> v | None \<Rightarrow> JUndefined)"

text \<open>A non-negative integer inside a template literal: its decimal digits.\<close>

fun show_nat :: "nat \<Rightarrow> string" where
  "show_nat n =
     (if n < 10 then [''0123456789'' ! n]
      else show_nat (n div 10) @ [''0123456789'' ! (n mod 10)])"

text \<open>
  The own enumerable properties that the spread \<^verbatim>\<open>{...v}\<close> copies: the entries of an
  object, the indexed elements of an array or of a string, and nothing for any other
  value. In \<^verbatim>\<open>{success: x, ...v}\<close> the properties of \<open>v\<close> come last and so win.
\<close>

definition own_entries :: "jsval \<Rightarrow> object" where
  "own_entries v =
     (case v of
        JObj es \<Rightarrow> es
      | JArr xs \<Rightarrow> zip (map show_nat [0..<length xs]) xs
      | JStr cs \<Rightarrow> zip (map show_nat [0..<length cs]) (map (\<lambda>c. JStr [c]) cs)
      | _ \<Rightarrow> [])"

definition spread_over :: "object \<Rightarrow> jsval \<Rightarrow> object" where
  "spread_over base v = own_entries v @ base"

record blob =
  bytes :: string
  mime :: string

text \<open>
  Built-ins of the platform whose results no property below depends on are parameters
  of the model: \<^verbatim>\<open>parseInt\<close> (\<open>None\<close> for NaN), \<^verbatim>\<open>JSON.stringify\<close>, the conversion
  of a value that is not a string to a string, \<^verbatim>\<open>atob\<close> (\<open>Inl\<close> the message of the
  exception it throws on a malformed input), \<^verbatim>\<open>URL.createObjectURL\<close>, and the engine's
  message for a TypeError, given what was attempted.
\<close>

record platform =
  parseInt :: "string \<Rightarrow> int option"
  stringify :: "jsval \<Rightarrow> string"
  toString :: "jsval \<Rightarrow> string"
  atob :: "string \<Rightarrow> string + string"
  createObjectURL :: "blob \<Rightarrow> string"
  type_error :: "string \<Rightarrow> string"

text \<open>\<^verbatim>\<open>new Error(v).message\<close>\<close>

definition message_of :: "platform \<Rightarrow> jsval \<Rightarrow> string" where
  "message_of P v = (case v of JStr m \<Rightarrow> m | _ \<Rightarrow> toString P v)"

text \<open>
  Reading a property \<^verbatim>\<open>v.k\<close>, for the names this program reads (\<^verbatim>\<open>success\<close>,
  \<^verbatim>\<open>error\<close>, \<^verbatim>\<open>data\<close>, \<^verbatim>\<open>files\<close>): none of them is a property of a string, a number, a
  boolean or an array, and reading any property of \<^verbatim>\<open>null\<close> throws a TypeError.
\<close>

definition read_prop :: "platform \<Rightarrow> jsval \<Rightarrow> string \<Rightarrow> string + jsval" where
  "read_prop P v k =
     (case v of
        JObj es \<Rightarrow> Inr (field es k)
      | JNull \<Rightarrow> Inl (type_error P k)
      | JUndefined \<Rightarrow> Inl (type_error P k)
      | _ \<Rightarrow> Inr JUndefined)"


section \<open>Application state\<close>

text \<open>
  What \<^verbatim>\<open>fetch\<close> gives back for one request: the promise rejects with a message, or a
  response arrives with a status and a body, which \<^verbatim>\<open>response.json()\<close> either rejects
  with a message or parses to a value.
\<close>

datatype body = NotJson string | Json jsval

datatype fetch_outcome = Rejected string | Responded nat body

type_synonym request = "string \<times> jsval"

type_synonym backend = "request \<Rightarrow> fetch_outcome"

text \<open>What a file or client list container shows.\<close>

datatype listing = EmptyState string | Items "jsval list"

text \<open>
  The fields of \<^verbatim>\<open>MediaSyncApp\<close> and the parts of the page it reads and writes. The log
  holds the entries in order, each a message and its type (the time stamp is left out);
  \<open>notifications\<close> holds every notification shown so far; \<open>requests\<close> holds every
  request handed to \<^verbatim>\<open>fetch\<close>, in order.
\<close>

record app =
  serverRunning :: bool
  clientConnected :: bool
  loadedFiles :: jsval
  availableFiles :: jsval
  connectedClients :: jsval
  serverPortInput :: string
  mediaDirectoryInput :: string
  serverStatusDot :: bool
  serverStatusText :: string
  startServerBtn_disabled :: bool
  stopServerBtn_disabled :: bool
  loadedFilesContainer :: listing
  connectedClientsContainer :: listing
  mediaPlayerContainer :: string
  playBtn_disabled :: bool
  pauseBtn_disabled :: bool
  stopBtn_disabled :: bool
  statusLog :: "(string \<times> string) list"
  notifications :: "(string \<times> string) list"
  requests :: "request list"

definition logMessage :: "string \<Rightarrow> string \<Rightarrow> app \<Rightarrow> app" where
  "logMessage message type s = s\<lparr>statusLog := statusLog s @ [(message, type)]\<rparr>"

definition showNotification :: "string \<Rightarrow> string \<Rightarrow> app \<Rightarrow> app" where
  "showNotification message type s = s\<lparr>notifications := notifications s @ [(message, type)]\<rparr>"

text \<open>The state after the constructor has run on the page as it is served.\<close>

definition new_app :: app where
  "new_app =
     \<lparr>serverRunning = False, clientConnected = False, loadedFiles = JArr [],
      availableFiles = JArr [], connectedClients = JArr [],
      serverPortInput = ''8080'', mediaDirectoryInput = '''',
      serverStatusDot = False, serverStatusText = ''Server Stopped'',
      startServerBtn_disabled = False, stopServerBtn_disabled = True,
      loadedFilesContainer = EmptyState ''No media files loaded'',
      connectedClientsContainer = EmptyState ''No clients connected'',
      mediaPlayerContainer =
        newline
        @ ''                            <div class='' @ [dquote] @ ''player-placeholder'' @ [dquote]
        @ ''>'' @ newline
        @ ''                                <p>No media loaded</p>'' @ newline
        @ ''                            </div>'' @ newline
        @ ''                        '',
      playBtn_disabled = True, pauseBtn_disabled = True, stopBtn_disabled = True,
      statusLog = [(''Application initialized'', ''info'')],
      notifications = [], requests = []\<rparr>"

text \<open>The hosting state: the hosting-active flag, the loaded files, the connected peers.\<close>

definition hosting :: "app \<Rightarrow> bool \<times> jsval \<times> jsval" where
  "hosting s = (serverRunning s, loadedFiles s, connectedClients s)"


section \<open>Command channel\<close>

definition ok :: "nat \<Rightarrow> bool" where
  "ok status = (200 \<le> status \<and> status \<le> 299)"

text \<open>
  The body of the \<^verbatim>\<open>try\<close> block of \<^verbatim>\<open>callRustCommand\<close>, once \<^verbatim>\<open>fetch\<close> has settled:
  \<open>Inl\<close> is the message of the error thrown, \<open>Inr\<close> the object returned.
\<close>

definition callRustCommand_try :: "platform \<Rightarrow> fetch_outcome \<Rightarrow> string + object" where
  "callRustCommand_try P outcome =
     (case outcome of
        Rejected m \<Rightarrow> Inl m
      | Responded status b \<Rightarrow>
          if \<not> ok status then Inl (''HTTP error! status: '' @ show_nat status)
          else
            (case b of
               NotJson m \<Rightarrow> Inl m
             | Json result \<Rightarrow>
                 (case read_prop P result ''success'' of
                    Inl m \<Rightarrow> Inl m
                  | Inr success \<Rightarrow>
                      (case read_prop P result ''error'' of
                         Inl m \<Rightarrow> Inl m
                       | Inr error \<Rightarrow>
                           if \<not> truthy success \<and> truthy error then Inl (message_of P error)
                           else
                             (case read_prop P result ''data'' of
                                Inl m \<Rightarrow> Inl m
                              | Inr data \<Rightarrow>
                                  Inr (spread_over [(''success'', success)] data))))))"

text \<open>
  \<^verbatim>\<open>callRustCommand\<close>: the request goes to \<^verbatim>\<open>fetch\<close>, and whatever the \<^verbatim>\<open>try\<close> block
  throws is caught and returned as \<^verbatim>\<open>{success: false, error: message}\<close>. The call is
  modelled as one step: what other handlers do while the request is in flight is not
  part of the model.
\<close>

definition callRustCommand :: "platform \<Rightarrow> backend \<Rightarrow> string \<Rightarrow> jsval \<Rightarrow> app \<Rightarrow> object \<times> app" where
  "callRustCommand P server command params s =
     (let s' = s\<lparr>requests := requests s @ [(command, params)]\<rparr>
      in case callRustCommand_try P (server (command, params)) of
           Inl m \<Rightarrow> ([(''success'', JBool False), (''error'', JStr m)], s')
         | Inr r \<Rightarrow> (r, s'))"

text \<open>
  How every controller reads the object it gets back:
  \<^verbatim>\<open>if (response.success) ... else throw new Error(response.error || generic)\<close>.
\<close>

datatype CommandResult = Ok object | Err string

definition as_result :: "platform \<Rightarrow> string \<Rightarrow> object \<Rightarrow> CommandResult" where
  "as_result P generic response =
     (if truthy (field response ''success'') then Ok response
      else Err (message_of P (or_else (field response ''error'') (JStr generic))))"


section \<open>Host controller\<close>

definition is_quote :: "char \<Rightarrow> bool" where
  "is_quote c = (c = dquote \<or> c = CHR 0x27)"

text \<open>
  \<^verbatim>\<open>directory.replace(/^["']|["']$/g, '')\<close>: a quote at the very start is removed, then
  a quote at the very end of what is left.
\<close>

definition strip_quotes :: "string \<Rightarrow> string" where
  "strip_quotes s =
     (let s1 = (case s of [] \<Rightarrow> [] | c # cs \<Rightarrow> if is_quote c then cs else s)
      in if s1 \<noteq> [] \<and> is_quote (last s1) then butlast s1 else s1)"

definition updateServerStatus :: "bool \<Rightarrow> app \<Rightarrow> app" where
  "updateServerStatus running s =
     (if running
      then s\<lparr>serverStatusDot := True, serverStatusText := ''Server Running'',
             startServerBtn_disabled := True, stopServerBtn_disabled := False\<rparr>
      else s\<lparr>serverStatusDot := False, serverStatusText := ''Server Stopped'',
             startServerBtn_disabled := False, stopServerBtn_disabled := True\<rparr>)"

text \<open>
  \<^verbatim>\<open>v.length\<close>: \<open>None\<close> when reading it throws. The two list renderers compare it with 0
  and otherwise call \<^verbatim>\<open>v.map\<close>, which only an array has, reading properties of each
  element, which throws for \<^verbatim>\<open>null\<close> and \<^verbatim>\<open>undefined\<close>. The markup they build is
  represented by the list of the elements shown.
\<close>

definition js_length :: "jsval \<Rightarrow> jsval option" where
  "js_length v =
     (case v of
        JArr xs \<Rightarrow> Some (JNum (int (length xs)))
      | JStr cs \<Rightarrow> Some (JNum (int (length cs)))
      | JObj es \<Rightarrow> Some (field es ''length'')
      | JNull \<Rightarrow> None
      | JUndefined \<Rightarrow> None
      | _ \<Rightarrow> Some JUndefined)"

definition nullish :: "jsval \<Rightarrow> bool" where
  "nullish v = (v = JNull \<or> v = JUndefined)"

definition render_list :: "platform \<Rightarrow> string \<Rightarrow> string \<Rightarrow> jsval \<Rightarrow> string + listing" where
  "render_list P empty_text first_prop v =
     (case js_length v of
        None \<Rightarrow> Inl (type_error P ''length'')
      | Some n \<Rightarrow>
          if n = JNum 0 then Inr (EmptyState empty_text)
          else
            (case v of
               JArr xs \<Rightarrow>
                 if list_ex nullish xs then Inl (type_error P first_prop) else Inr (Items xs)
             | _ \<Rightarrow> Inl (type_error P ''map'')))"

definition updateLoadedFiles :: "platform \<Rightarrow> app \<Rightarrow> string + app" where
  "updateLoadedFiles P s =
     (case render_list P ''No media files loaded'' ''name'' (loadedFiles s) of
        Inl m \<Rightarrow> Inl m
      | Inr shown \<Rightarrow> Inr (s\<lparr>loadedFilesContainer := shown\<rparr>))"

definition updateConnectedClients :: "platform \<Rightarrow> app \<Rightarrow> string + app" where
  "updateConnectedClients P s =
     (case render_list P ''No clients connected'' ''id'' (connectedClients s) of
        Inl m \<Rightarrow> Inl m
      | Inr shown \<Rightarrow> Inr (s\<lparr>connectedClientsContainer := shown\<rparr>))"

text \<open>
  The \<^verbatim>\<open>try\<close> block of \<^verbatim>\<open>startServer\<close>: \<open>Inl\<close> is the message of the error thrown
  together with the state at that point, \<open>Inr\<close> the state when the block ends. JSON
  writes NaN as \<^verbatim>\<open>null\<close>, and the payload is only ever written as JSON.
\<close>

definition startServer_try :: "platform \<Rightarrow> backend \<Rightarrow> string \<Rightarrow> string \<Rightarrow> app \<Rightarrow> (string \<times> app) + app" where
  "startServer_try P server port directory s =
     (let s1 = logMessage (''Starting server on port '' @ port @ '' with directory: '' @ directory)
                 ''info'' s;
          payload = JObj [(''port'', (case parseInt P port of Some n \<Rightarrow> JNum n | None \<Rightarrow> JNull)),
                          (''directory'', JStr directory)];
          s2 = logMessage (''Sending payload: '' @ stringify P payload) ''info'' s1;
          (response, s3) = callRustCommand P server ''start-server'' payload s2
      in if truthy (field response ''success'') then
           (let s4 = updateServerStatus True (s3\<lparr>serverRunning := True\<rparr>);
                s5 = s4\<lparr>loadedFiles := or_else (field response ''files'') (JArr [])\<rparr>
            in case updateLoadedFiles P s5 of
                 Inl m \<Rightarrow> Inl (m, s5)
               | Inr s6 \<Rightarrow>
                   Inr (logMessage ''Server started successfully'' ''success''
                         (showNotification ''Server started successfully'' ''success'' s6)))
         else
           Inl (message_of P (or_else (field response ''error'') (JStr ''Failed to start server'')),
                s3))"

definition startServer :: "platform \<Rightarrow> backend \<Rightarrow> app \<Rightarrow> app" where
  "startServer P server s =
     (let port = serverPortInput s;
          directory = strip_quotes (trim (mediaDirectoryInput s));
          s1 = logMessage (''Raw directory input: '' @ [dquote] @ mediaDirectoryInput s @ [dquote])
                 ''info'' s;
          s2 = logMessage (''Cleaned directory: '' @ [dquote] @ directory @ [dquote]) ''info'' s1;
          s3 = logMessage (''Directory length: '' @ show_nat (length directory)) ''info'' s2
      in if port = [] then
           logMessage ''Missing port number'' ''error''
             (showNotification ''Please enter a port number'' ''error'' s3)
         else if directory = [] then
           logMessage ''Missing directory path'' ''error''
             (showNotification ''Please enter a directory path or select files'' ''error'' s3)
         else if \<not> isValidDirectoryPath directory then
           logMessage (''Use '' @ [dquote] @ ''Use Test Media'' @ [dquote]
                       @ '' button or enter a full path manually'') ''info''
             (logMessage (''Invalid directory path: '' @ directory) ''error''
               (showNotification
                  (''Please enter a valid directory path (e.g., f:'' @ [bslash] @ ''software''
                   @ [bslash] @ ''test_media)'') ''error'' s3))
         else
           (case startServer_try P server port directory s3 of
              Inl (m, s') \<Rightarrow>
                showNotification (''Failed to start server: '' @ m) ''error''
                  (logMessage (''Failed to start server: '' @ m) ''error'' s')
            | Inr s' \<Rightarrow> s'))"

definition stopServer_try :: "platform \<Rightarrow> backend \<Rightarrow> app \<Rightarrow> (string \<times> app) + app" where
  "stopServer_try P server s =
     (let s1 = logMessage ''Stopping server...'' ''info'' s;
          (response, s2) = callRustCommand P server ''stop-server'' (JObj []) s1
      in if truthy (field response ''success'') then
           (let s3 = updateServerStatus False (s2\<lparr>serverRunning := False\<rparr>);
                s4 = s3\<lparr>loadedFiles := JArr [], connectedClients := JArr []\<rparr>
            in case updateLoadedFiles P s4 of
                 Inl m \<Rightarrow> Inl (m, s4)
               | Inr s5 \<Rightarrow>
                   (case updateConnectedClients P s5 of
                      Inl m \<Rightarrow> Inl (m, s5)
                    | Inr s6 \<Rightarrow>
                        Inr (logMessage ''Server stopped'' ''info''
                              (showNotification ''Server stopped'' ''info'' s6))))
         else
           Inl (message_of P (or_else (field response ''error'') (JStr ''Failed to stop server'')),
                s2))"

definition stopServer :: "platform \<Rightarrow> backend \<Rightarrow> app \<Rightarrow> app" where
  "stopServer P server s =
     (case stopServer_try P server s of
        Inl (m, s') \<Rightarrow>
          showNotification (''Failed to stop server: '' @ m) ''error''
            (logMessage (''Failed to stop server: '' @ m) ''error'' s')
      | Inr s' \<Rightarrow> s')"


section \<open>Media player\<close>

record mediaData =
  filename :: string
  data :: string
  mediaType :: string

definition updatePlayerControls :: "bool \<Rightarrow> app \<Rightarrow> app" where
  "updatePlayerControls enabled s =
     s\<lparr>playBtn_disabled := \<not> enabled, pauseBtn_disabled := \<not> enabled,
       stopBtn_disabled := \<not> enabled\<rparr>"

text \<open>
  The three template literals of \<^verbatim>\<open>loadMediaInPlayer\<close>, with the line breaks and the
  indentation they have in the source. The object URL, the MIME type and the file name
  are put in as they are: nothing is escaped.
\<close>

definition video_markup :: "string \<Rightarrow> string \<Rightarrow> string" where
  "video_markup url type =
     newline
     @ ''                <video controls autoplay style='' @ [dquote]
     @ ''max-width: 100%; max-height: 100%;'' @ [dquote] @ ''>'' @ newline
     @ ''                    <source src='' @ [dquote] @ url @ [dquote]
     @ '' type='' @ [dquote] @ type @ [dquote] @ ''>'' @ newline
     @ ''                    Your browser does not support the video tag.'' @ newline
     @ ''                </video>'' @ newline
     @ ''            ''"

definition audio_markup :: "string \<Rightarrow> string \<Rightarrow> string" where
  "audio_markup url type =
     newline
     @ ''                <audio controls autoplay style='' @ [dquote]
     @ ''width: 100%;'' @ [dquote] @ ''>'' @ newline
     @ ''                    <source src='' @ [dquote] @ url @ [dquote]
     @ '' type='' @ [dquote] @ type @ [dquote] @ ''>'' @ newline
     @ ''                    Your browser does not support the audio tag.'' @ newline
     @ ''                </audio>'' @ newline
     @ ''            ''"

definition image_markup :: "string \<Rightarrow> string \<Rightarrow> string" where
  "image_markup url alt =
     newline
     @ ''                <img src='' @ [dquote] @ url @ [dquote]
     @ '' alt='' @ [dquote] @ alt @ [dquote]
     @ '' style='' @ [dquote]
     @ ''max-width: 100%; max-height: 100%; object-fit: contain;'' @ [dquote] @ ''>'' @ newline
     @ ''            ''"

text \<open>
  \<^verbatim>\<open>loadMediaInPlayer\<close> has no \<^verbatim>\<open>try\<close> of its own: when \<^verbatim>\<open>atob\<close> throws, the exception
  leaves the function (\<open>Inl\<close>) before anything is written. The bytes of the blob are the
  code units of the decoded string. The function assigns the markup to \<^verbatim>\<open>innerHTML\<close>
  and enables the controls; it never calls \<^verbatim>\<open>play()\<close>.
\<close>

definition loadMediaInPlayer :: "platform \<Rightarrow> mediaData \<Rightarrow> app \<Rightarrow> string + app" where
  "loadMediaInPlayer P m s =
     (case atob P (data m) of
        Inl e \<Rightarrow> Inl e
      | Inr binaryString \<Rightarrow>
          (let blob = \<lparr>bytes = binaryString, mime = getMimeType (mediaType m) (filename m)\<rparr>;
               url = createObjectURL P blob;
               playerHTML =
                 (if mediaType m = ''video'' then
                    video_markup url (getMimeType (mediaType m) (filename m))
                  else if mediaType m = ''audio'' then
                    audio_markup url (getMimeType (mediaType m) (filename m))
                  else if mediaType m = ''image'' then image_markup url (filename m)
                  else [])
           in Inr (updatePlayerControls True (s\<lparr>mediaPlayerContainer := playerHTML\<rparr>))))"

definition clearMediaPlayer :: "app \<Rightarrow> app" where
  "clearMediaPlayer s =
     updatePlayerControls False
       (s\<lparr>mediaPlayerContainer :=
            newline
            @ ''            <div class='' @ [dquote] @ ''player-placeholder'' @ [dquote] @ ''>''
            @ newline
            @ ''                <p>No media loaded</p>'' @ newline
            @ ''            </div>'' @ newline
            @ ''        ''\<rparr>)"



fun starts_with_i :: "string \<Rightarrow> string \<Rightarrow> bool" where
  "starts_with_i [] text = True"
| "starts_with_i (n # ns) [] = False"
| "starts_with_i (n # ns) (c # cs) = (fold_ascii n = fold_ascii c \<and> starts_with_i ns cs)"

fun mentions :: "string \<Rightarrow> string \<Rightarrow> bool" where
  "mentions needle [] = (needle = [])"
| "mentions needle (c # cs) = (starts_with_i needle (c # cs) \<or> mentions needle cs)"

definition has_media_tag :: "string \<Rightarrow> bool" where
  "has_media_tag html = (mentions ''<video'' html \<or> mentions ''<audio'' html)"

text \<open>
  An instance of the platform, for running the model on concrete inputs.
  Its \<^verbatim>\<open>atob\<close> is the forgiving Base64 decoding of the HTML standard: ASCII white
  space is dropped, up to two padding signs are removed from a text whose length is a
  multiple of four, a length of one more than a multiple of four or a character outside
  the alphabet is an error, and each group of sextets gives its bytes.
  Its \<^verbatim>\<open>parseInt\<close> follows the language standard for a call without radix: leading
  white space, a sign, the prefix \<^verbatim>\<open>0x\<close> for radix 16, then the longest run of digits,
  NaN when that run is empty; the value is exact, as the engine's is below 2 to the 53.
  The texts that \<^verbatim>\<open>JSON.stringify\<close>, the string conversion and the TypeError give, and
  the object URL, are fixed.
\<close>

fun index_of :: "'a \<Rightarrow> 'a list \<Rightarrow> nat option" where
  "index_of x [] = None"
| "index_of x (y # ys) = (if x = y then Some 0 else map_option Suc (index_of x ys))"

definition byte :: "nat \<Rightarrow> char" where
  "byte n =
     Char (odd n) (odd (n div 2)) (odd (n div 4)) (odd (n div 8))
          (odd (n div 16)) (odd (n div 32)) (odd (n div 64)) (odd (n div 128))"

definition base64_alphabet :: string where
  "base64_alphabet = ''ABCDEFGHIJKLMNOPQRSTUVWXYZabcdefghijklmnopqrstuvwxyz0123456789+/''"

fun decode_sextets :: "nat list \<Rightarrow> string" where
  "decode_sextets (a # b # c # d # rest) =
     byte (4 * a + b div 16) # byte (16 * (b mod 16) + c div 4) # byte (64 * (c mod 4) + d)
     # decode_sextets rest"
| "decode_sextets [a, b, c] = [byte (4 * a + b div 16), byte (16 * (b mod 16) + c div 4)]"
| "decode_sextets [a, b] = [byte (4 * a + b div 16)]"
| "decode_sextets rest = []"

definition strip_padding :: "string \<Rightarrow> string" where
  "strip_padding d =
     (if length d mod 4 = 0 \<and> d \<noteq> [] \<and> last d = CHR ''=''
      then (if butlast d \<noteq> [] \<and> last (butlast d) = CHR ''='' then butlast (butlast d)
            else butlast d)
      else d)"

definition atob_base64 :: "string \<Rightarrow> string + string" where
  "atob_base64 input =
     (let d = strip_padding
                (filter (\<lambda>c. c \<notin> set [CHR 0x09, CHR 0x0A, CHR 0x0C, CHR 0x0D, CHR 0x20]) input)
      in case those (map (\<lambda>c. index_of c base64_alphabet) d) of
           None \<Rightarrow> Inl ''InvalidCharacterError''
         | Some sextets \<Rightarrow>
             if length sextets mod 4 = 1 then Inl ''InvalidCharacterError''
             else Inr (decode_sextets sextets))"

definition digit_value :: "nat \<Rightarrow> char \<Rightarrow> nat option" where
  "digit_value radix c =
     (case index_of (fold_ascii c) ''0123456789abcdef'' of
        None \<Rightarrow> None
      | Some v \<Rightarrow> if v < radix then Some v else None)"

definition parseInt_js :: "string \<Rightarrow> int option" where
  "parseInt_js input =
     (let s0 = dropWhile is_space input;
          negative = (take 1 s0 = ''-'');
          s1 = (if take 1 s0 = ''-'' \<or> take 1 s0 = ''+'' then drop 1 s0 else s0);
          hex = (take 2 s1 = ''0x'' \<or> take 2 s1 = ''0X'');
          radix = (if hex then 16 else 10);
          s2 = (if hex then drop 2 s1 else s1);
          z = takeWhile (\<lambda>c. digit_value radix c \<noteq> None) s2;
          magnitude =
            foldl (\<lambda>n c. radix * n + (case digit_value radix c of Some v \<Rightarrow> v | None \<Rightarrow> 0)) 0 z
      in if z = [] then None
         else Some (if negative then - int magnitude else int magnitude))"

definition plain_platform :: platform where
  "plain_platform =
     \<lparr>parseInt = parseInt_js,
      stringify = (\<lambda>v. ''[json]''),
      toString = (\<lambda>v. ''[value]''),
      atob = atob_base64,
      createObjectURL = (\<lambda>b. ''blob:http://localhost:3000/0''),
      type_error = (\<lambda>k. ''TypeError: '' @ k)\<rparr>"


text \<open>A backend that gives every request the same outcome.\<close>

definition replying :: "fetch_outcome \<Rightarrow> backend" where
  "replying outcome = (\<lambda>request. outcome)"


section \<open>Properties of the string functions\<close>

lemmas string_eval = toLowerCase_def lower_char_def is_capital_def code_unit_def set_bit5_def

lemma split_not_Nil: "split c xs \<noteq> []"
  by (induction xs) (auto split: list.splits)

lemma split_no_sep: "c \<notin> set xs \<Longrightarrow> split c xs = [xs]"
  by (induction xs) auto

lemma split_with_sep: "c \<in> set xs \<Longrightarrow> \<exists>w v vs. split c xs = w # v # vs"
proof (induction xs)
  case Nil
  then show ?case by simp
next
  case (Cons x xs)
  obtain w ws where sp: "split c xs = w # ws"
    using split_not_Nil[of c xs] by (cases "split c xs") auto
  show ?case
  proof (cases "x = c")
    case True
    then show ?thesis using sp by simp
  next
    case False
    with Cons.prems have "c \<in> set xs" by simp
    from Cons.IH[OF this] obtain w' v' vs' where "split c xs = w' # v' # vs'" by blast
    then show ?thesis using False by simp
  qed
qed

text \<open>The last piece of \<open>split\<close> is what follows the last separator.\<close>

lemma last_split: "last (split c xs) = rev (takeWhile (\<lambda>x. x \<noteq> c) (rev xs))"
proof (induction xs)
  case Nil
  then show ?case by simp
next
  case (Cons x xs)
  show ?case
  proof (cases "c \<in> set xs")
    case True
    then obtain w v vs where sp: "split c xs = w # v # vs"
      using split_with_sep by blast
    have tw: "takeWhile (\<lambda>x. x \<noteq> c) (rev xs @ [x]) = takeWhile (\<lambda>x. x \<noteq> c) (rev xs)"
      using True by auto
    show ?thesis using Cons sp tw by auto
  next
    case False
    then have sp: "split c xs = [xs]" by (rule split_no_sep)
    have "\<forall>y\<in>set (rev xs). y \<noteq> c" using False by auto
    then have tw: "takeWhile (\<lambda>x. x \<noteq> c) (rev xs @ [x]) = rev xs @ takeWhile (\<lambda>x. x \<noteq> c) [x]"
      by (intro takeWhile_append2) simp
    show ?thesis using sp tw by auto
  qed
qed

lemma extension_of_spec: "extension_of n = spec_extension n"
  by (simp add: extension_of_def spec_extension_def pop_def last_split)

lemma mediaExtensions_sets: "set mediaExtensions = spec_video \<union> spec_audio \<union> spec_image"
  unfolding mediaExtensions_def spec_video_def spec_audio_def spec_image_def
  by (simp add: insert_commute)

lemma count_list_filter:
  "count_list (filter Q xs) x = (if Q x then count_list xs x else 0)"
  by (induction xs) auto


section \<open>Properties of the matcher\<close>

lemma nullable_lang: "nullable r \<longleftrightarrow> [] \<in> lang r"
  by (induction r) (auto intro: star_nil)

lemma star_Cons_split:
  assumes "w \<in> star A" and "w = c # cs"
  shows "\<exists>u v. cs = u @ v \<and> c # u \<in> A \<and> v \<in> star A"
  using assms
proof (induction arbitrary: cs rule: star.induct)
  case star_nil
  then show ?case by simp
next
  case (star_app u v)
  show ?case
  proof (cases u)
    case Nil
    with star_app show ?thesis by simp
  next
    case (Cons a u')
    with star_app.prems have "cs = u' @ v" and "a = c" by simp_all
    with Cons star_app.hyps show ?thesis by blast
  qed
qed

lemma star_Cons: "c # cs \<in> star A \<longleftrightarrow> (\<exists>u v. cs = u @ v \<and> c # u \<in> A \<and> v \<in> star A)"
proof
  assume "c # cs \<in> star A"
  then show "\<exists>u v. cs = u @ v \<and> c # u \<in> A \<and> v \<in> star A"
    by (rule star_Cons_split) simp
next
  assume "\<exists>u v. cs = u @ v \<and> c # u \<in> A \<and> v \<in> star A"
  then obtain u v where "cs = u @ v" "c # u \<in> A" "v \<in> star A" by blast
  then show "c # cs \<in> star A" using star_app[of "c # u" A v] by simp
qed

lemma deriv_lang: "cs \<in> lang (deriv c r) \<longleftrightarrow> c # cs \<in> lang r"
proof (induction r arbitrary: cs)
  case (Then a b)
  then show ?case
    by (auto simp: nullable_lang Cons_eq_append_conv)
next
  case (Many a)
  then show ?case
    by (auto simp: star_Cons)
qed auto

text \<open>The matcher accepts exactly the words of the pattern.\<close>

lemma matches_lang: "matches r cs \<longleftrightarrow> cs \<in> lang r"
  by (induction cs arbitrary: r) (simp_all add: nullable_lang deriv_lang)

lemma star_any: "w \<in> star (lang any_unit)"
proof (induction w)
  case Nil
  show ?case by (rule star_nil)
next
  case (Cons c w)
  have "[c] \<in> lang any_unit" by (simp add: any_unit_def)
  from star_app[OF this Cons] show ?case by simp
qed

lemma test_anywhere: "w \<in> lang r \<Longrightarrow> test (anywhere r) (u @ w @ v)"
  unfolding test_def anywhere_def matches_lang
  using star_any by simp blast

lemma lang_Class_Then: "Q x \<Longrightarrow> w \<in> lang r \<Longrightarrow> x # w \<in> lang (Then (Class Q) r)"
proof -
  assume "Q x" and "w \<in> lang r"
  then have "[x] \<in> lang (Class Q) \<and> w \<in> lang r \<and> x # w = [x] @ w" by simp
  then show ?thesis unfolding lang.simps(4) by blast
qed

lemma lang_lit_i: "map fold_ascii w = map fold_ascii t \<Longrightarrow> w \<in> lang (lit_i t)"
proof (induction t arbitrary: w)
  case Nil
  then show ?case by (simp add: lit_i_def seq_def)
next
  case (Cons c t)
  then obtain x w' where w: "w = x # w'" and x: "fold_ascii x = fold_ascii c"
    and w': "map fold_ascii w' = map fold_ascii t" by (cases w) auto
  from Cons.IH[OF w'] have "w' \<in> lang (lit_i t)" .
  then show ?case
    using x w lang_Class_Then[of "\<lambda>y. fold_ascii y = fold_ascii c" x w' "lit_i t"]
    by (simp add: lit_i_def seq_def)
qed

text \<open>A code unit that \<open>toLowerCase\<close> sends into ASCII is sent there by the ASCII folding too.\<close>

lemma lower_char_ascii: "code_unit (lower_char x) < 128 \<Longrightarrow> fold_ascii x = lower_char x"
proof (cases x)
  case (Char b0 b1 b2 b3 b4 b5 b6 b7)
  assume "code_unit (lower_char x) < 128"
  then show ?thesis unfolding Char
    by (cases b0; cases b1; cases b2; cases b3; cases b4; cases b5; cases b6; cases b7;
        simp add: lower_char_def fold_ascii_def is_capital_def code_unit_def set_bit5_def)
qed

lemma lower_selected:
  "toLowerCase w = ''selected'' \<Longrightarrow> map fold_ascii w = map fold_ascii ''selected''"
proof -
  assume a: "toLowerCase w = ''selected''"
  have "\<forall>x\<in>set w. code_unit (lower_char x) < 128"
  proof
    fix x assume "x \<in> set w"
    then have "lower_char x \<in> set (toLowerCase w)" by (simp add: toLowerCase_def)
    then show "code_unit (lower_char x) < 128" unfolding a by (auto simp: code_unit_def)
  qed
  then have "map fold_ascii w = toLowerCase w"
    by (simp add: toLowerCase_def lower_char_ascii)
  then show ?thesis using a by (simp add: fold_ascii_def code_unit_def)
qed

lemma rejected_by_third:
  "test p3 path \<Longrightarrow> length path < 10 \<Longrightarrow> rejected_by [p1, p2, p3, p4] path"
  by simp

lemmas rx_eval = test_def anywhere_def at_start_def at_end_def whole_def seq_def lit_def lit_i_def
  some_def any_unit_def one_of_def none_of_def digit_def space_def dot_def letter_def
  separator_def fold_ascii_def is_space_def bslash_def code_unit_def set_bit5_def

lemmas path_eval = isValidDirectoryPath_def trim_def includes_char_def invalidPatterns_def
  pathLikePatterns_def Let_def


section \<open>The media classifier and the path validator\<close>

text \<open>
  C1, as the code has it. \<^verbatim>\<open>getMediaTypeFromFilename\<close> knows five video, five audio and
  six image extensions: the lowercased part of the name after its last dot decides, and
  every other extension, among them \<^verbatim>\<open>wmv\<close>, \<^verbatim>\<open>flv\<close>, \<^verbatim>\<open>m4v\<close>, \<^verbatim>\<open>m4a\<close>, \<^verbatim>\<open>wma\<close>,
  \<^verbatim>\<open>svg\<close> and \<^verbatim>\<open>tiff\<close>, gives \<^verbatim>\<open>unknown\<close>.
\<close>

theorem getMediaTypeFromFilename_kinds:
  "getMediaTypeFromFilename fname =
     (if spec_extension fname \<in> {''mp4'', ''avi'', ''mkv'', ''mov'', ''webm''} then ''video''
      else if spec_extension fname \<in> {''mp3'', ''wav'', ''flac'', ''ogg'', ''aac''} then ''audio''
      else if spec_extension fname \<in> {''jpg'', ''jpeg'', ''png'', ''gif'', ''bmp'', ''webp''}
        then ''image''
      else ''unknown'')"
  by (simp add: getMediaTypeFromFilename_def extension_of_spec Let_def)

text \<open>
  C1, as the specification states it, fails: \<^verbatim>\<open>wmv\<close> is in the specification's video
  set, and a file \<^verbatim>\<open>clip.wmv\<close> is classified \<^verbatim>\<open>unknown\<close>.
\<close>

theorem getMediaTypeFromFilename_wmv_unknown:
  "spec_extension ''clip.wmv'' \<in> spec_video
   \<and> getMediaTypeFromFilename ''clip.wmv'' = ''unknown''"
  by (simp add: spec_extension_def spec_video_def getMediaTypeFromFilename_def extension_of_def
      pop_def string_eval)

text \<open>
  C2. \<^verbatim>\<open>filterMediaFiles\<close> keeps exactly the files whose lowercased extension after the
  last dot is in one of the three recognised sets: it is the batch filtered by that test,
  hence a subsequence of the batch in which every kept file occurs as often as in the
  batch.
\<close>

theorem filterMediaFiles_exact:
  "filterMediaFiles files =
     filter (\<lambda>f. spec_extension (name f) \<in> spec_video \<union> spec_audio \<union> spec_image) files
   \<and> subseq (filterMediaFiles files) files
   \<and> (\<forall>f. count_list (filterMediaFiles files) f =
          (if spec_extension (name f) \<in> spec_video \<union> spec_audio \<union> spec_image
           then count_list files f else 0))"
proof -
  have eq: "filterMediaFiles files =
     filter (\<lambda>f. spec_extension (name f) \<in> spec_video \<union> spec_audio \<union> spec_image) files"
    by (simp add: filterMediaFiles_def extension_of_spec mediaExtensions_sets Let_def)
  show ?thesis unfolding eq by (simp add: count_list_filter)
qed

text \<open>
  C3. The five test vectors of the path validator: the empty string is rejected, the test
  media directory \<^verbatim>\<open>f:\software\test_media\<close> is accepted, the display text
  \<^verbatim>\<open>3 media files selected\<close> is rejected, \<^verbatim>\<open>./media\<close> is accepted and \<^verbatim>\<open>abc\<close> is rejected.
\<close>

theorem isValidDirectoryPath_vectors:
  "isValidDirectoryPath '''' = False
   \<and> isValidDirectoryPath (''f:'' @ [bslash] @ ''software'' @ [bslash] @ ''test_media'') = True
   \<and> isValidDirectoryPath ''3 media files selected'' = False
   \<and> isValidDirectoryPath ''./media'' = True
   \<and> isValidDirectoryPath ''abc'' = False"
proof (intro conjI)
  show "isValidDirectoryPath '''' = False"
    by (simp add: isValidDirectoryPath_def)
  show "isValidDirectoryPath (''f:'' @ [bslash] @ ''software'' @ [bslash] @ ''test_media'') = True"
    by (simp add: path_eval rx_eval)
  show "isValidDirectoryPath ''3 media files selected'' = False"
    by (simp add: path_eval rx_eval)
  show "isValidDirectoryPath ''./media'' = True"
    by (simp add: path_eval rx_eval)
  show "isValidDirectoryPath ''abc'' = False"
    by (simp add: path_eval rx_eval)
qed

text \<open>
  C4. When the trimmed input is shorter than 10 and contains \<^verbatim>\<open>selected\<close> in any mix
  of cases, the validator answers false, whatever else the string contains: the
  display-text patterns are tried before the path shapes.
\<close>

theorem isValidDirectoryPath_selected_short:
  assumes "length (trim input) < 10"
    and "trim input = u @ w @ v"
    and "toLowerCase w = ''selected''"
  shows "isValidDirectoryPath input = False"
proof -
  have "w \<in> lang (lit_i ''selected'')"
    using assms(3) by (intro lang_lit_i lower_selected)
  then have "test (anywhere (lit_i ''selected'')) (trim input)"
    unfolding assms(2) by (rule test_anywhere)
  then have "rejected_by invalidPatterns (trim input)"
    unfolding invalidPatterns_def using assms(1) by (intro rejected_by_third)
  then show ?thesis by (simp add: isValidDirectoryPath_def)
qed

text \<open>
  The string \<^verbatim>\<open>/Selected\<close> has a separator and the shape of an absolute path, which one
  of the path patterns accepts, and is rejected all the same.
\<close>

theorem isValidDirectoryPath_selected_short_witness:
  "length (trim ''/Selected'') < 10
   \<and> trim ''/Selected'' = ''/'' @ ''Selected'' @ ''''
   \<and> toLowerCase ''Selected'' = ''selected''
   \<and> list_ex (\<lambda>p. test p (trim ''/Selected'')) pathLikePatterns
   \<and> isValidDirectoryPath ''/Selected'' = False"
proof -
  have t: "trim ''/Selected'' = ''/Selected''"
    by (simp add: trim_def is_space_def)
  have l: "toLowerCase ''Selected'' = ''selected''"
    by (simp add: string_eval)
  have p: "list_ex (\<lambda>p. test p ''/Selected'') pathLikePatterns"
    by (simp add: pathLikePatterns_def rx_eval)
  have "isValidDirectoryPath ''/Selected'' = False"
    using isValidDirectoryPath_selected_short[of "''/Selected''" "''/''" "''Selected''" "''''"] t l
    by simp
  then show ?thesis using t l p by simp
qed

text \<open>
  C10. A name without a dot is its own extension: \<^verbatim>\<open>split\<close> gives one piece, so the
  classifier looks the whole lowercased name up in its three lists and the filter keeps
  the file exactly when the whole lowercased name is one of the recognised extensions.
  A file named \<^verbatim>\<open>mp4\<close> is a video and passes the filter.
\<close>

theorem extension_without_dot:
  "(CHR ''.'' \<notin> set n \<longrightarrow>
      extension_of n = toLowerCase n
      \<and> getMediaTypeFromFilename n =
          (if toLowerCase n \<in> {''mp4'', ''avi'', ''mkv'', ''mov'', ''webm''} then ''video''
           else if toLowerCase n \<in> {''mp3'', ''wav'', ''flac'', ''ogg'', ''aac''} then ''audio''
           else if toLowerCase n \<in> {''jpg'', ''jpeg'', ''png'', ''gif'', ''bmp'', ''webp''}
             then ''image''
           else ''unknown'')
      \<and> filterMediaFiles [f\<lparr>name := n\<rparr>] =
          (if toLowerCase n \<in> spec_video \<union> spec_audio \<union> spec_image then [f\<lparr>name := n\<rparr>]
           else []))
   \<and> getMediaTypeFromFilename ''mp4'' = ''video''
   \<and> filterMediaFiles [f\<lparr>name := ''mp4''\<rparr>] = [f\<lparr>name := ''mp4''\<rparr>]"
proof (intro conjI impI)
  assume nodot: "CHR ''.'' \<notin> set n"
  then have tw: "takeWhile (\<lambda>c. c \<noteq> CHR ''.'') (rev n) = rev n"
    by (induction n rule: rev_induct) auto
  show e: "extension_of n = toLowerCase n"
    by (simp add: extension_of_spec spec_extension_def tw)
  show "getMediaTypeFromFilename n =
          (if toLowerCase n \<in> {''mp4'', ''avi'', ''mkv'', ''mov'', ''webm''} then ''video''
           else if toLowerCase n \<in> {''mp3'', ''wav'', ''flac'', ''ogg'', ''aac''} then ''audio''
           else if toLowerCase n \<in> {''jpg'', ''jpeg'', ''png'', ''gif'', ''bmp'', ''webp''}
             then ''image''
           else ''unknown'')"
    by (simp add: getMediaTypeFromFilename_def e Let_def)
  show "filterMediaFiles [f\<lparr>name := n\<rparr>] =
          (if toLowerCase n \<in> spec_video \<union> spec_audio \<union> spec_image then [f\<lparr>name := n\<rparr>]
           else [])"
    by (simp add: filterMediaFiles_def e mediaExtensions_sets Let_def)
next
  show "getMediaTypeFromFilename ''mp4'' = ''video''"
    by (simp add: getMediaTypeFromFilename_def extension_of_def pop_def string_eval)
  show "filterMediaFiles [f\<lparr>name := ''mp4''\<rparr>] = [f\<lparr>name := ''mp4''\<rparr>]"
    by (simp add: filterMediaFiles_def mediaExtensions_def extension_of_def pop_def string_eval)
qed

text \<open>
  Two names without a dot: \<^verbatim>\<open>MP4\<close> is a video and is kept, \<^verbatim>\<open>readme\<close> is unknown and
  is dropped.
\<close>

theorem extension_without_dot_witness:
  "CHR ''.'' \<notin> set ''MP4''
   \<and> extension_of ''MP4'' = ''mp4''
   \<and> getMediaTypeFromFilename ''MP4'' = ''video''
   \<and> filterMediaFiles [\<lparr>name = ''MP4'', webkitRelativePath = ''''\<rparr>]
       = [\<lparr>name = ''MP4'', webkitRelativePath = ''''\<rparr>]
   \<and> CHR ''.'' \<notin> set ''readme''
   \<and> extension_of ''readme'' = ''readme''
   \<and> getMediaTypeFromFilename ''readme'' = ''unknown''
   \<and> filterMediaFiles [\<lparr>name = ''readme'', webkitRelativePath = ''''\<rparr>] = []"
proof -
  have d1: "CHR ''.'' \<notin> set ''MP4''" and d2: "CHR ''.'' \<notin> set ''readme''"
    by simp_all
  have l1: "toLowerCase ''MP4'' = ''mp4''" and l2: "toLowerCase ''readme'' = ''readme''"
    by (simp_all add: string_eval)
  show ?thesis
    using
      extension_without_dot[of "''MP4''" "\<lparr>name = ''MP4'', webkitRelativePath = ''''\<rparr>"]
      extension_without_dot[of "''readme''" "\<lparr>name = ''readme'', webkitRelativePath = ''''\<rparr>"]
      d1 d2 l1 l2
    by (simp add: spec_video_def spec_audio_def spec_image_def)
qed


section \<open>Properties of the command channel\<close>

declare show_nat.simps [simp del]







lemma callRustCommand_snd:
  "snd (callRustCommand P server command params s)
     = s\<lparr>requests := requests s @ [(command, params)]\<rparr>"
  by (simp add: callRustCommand_def Let_def split: sum.splits)

lemma callRustCommand_fst_state:
  "fst (callRustCommand P server command params s)
     = fst (callRustCommand P server command params s')"
  by (simp add: callRustCommand_def Let_def split: sum.splits)

lemmas channel_eval = as_result_def callRustCommand_def callRustCommand_try_def replying_def
  ok_def read_prop_def field_def spread_over_def own_entries_def or_else_def message_of_def Let_def





section \<open>Properties of the host controller\<close>

lemma startServer_try_Err:
  assumes "\<not> truthy (field (fst (callRustCommand P server ''start-server'' payload s0)) ''success'')"
    and "payload = JObj [(''port'', (case parseInt P port of Some n \<Rightarrow> JNum n | None \<Rightarrow> JNull)),
                          (''directory'', JStr directory)]"
  shows "startServer_try P server port directory s =
     Inl (message_of P
            (or_else (field (fst (callRustCommand P server ''start-server'' payload s0)) ''error'')
               (JStr ''Failed to start server'')),
          (logMessage (''Sending payload: '' @ stringify P payload) ''info''
             (logMessage (''Starting server on port '' @ port @ '' with directory: '' @ directory)
                ''info'' s))
          \<lparr>requests := requests s @ [(''start-server'', payload)]\<rparr>)"
proof -
  let ?s2 = "logMessage (''Sending payload: '' @ stringify P payload) ''info''
               (logMessage (''Starting server on port '' @ port @ '' with directory: '' @ directory)
                  ''info'' s)"
  have f: "fst (callRustCommand P server ''start-server'' payload ?s2)
             = fst (callRustCommand P server ''start-server'' payload s0)"
    by (rule callRustCommand_fst_state)
  have r: "requests ?s2 = requests s"
    by (simp add: logMessage_def)
  show ?thesis
    unfolding startServer_try_def Let_def assms(2)[symmetric]
    using assms(1) f r
    by (simp add: split_beta callRustCommand_snd)
qed

lemma render_empty: "render_list P t k (JArr []) = Inr (EmptyState t)"
  by (simp add: render_list_def js_length_def)

lemma stopServer_try_Ok:
  assumes "truthy (field (fst (callRustCommand P server ''stop-server'' (JObj []) s)) ''success'')"
  shows "stopServer_try P server s =
     Inr (s\<lparr>serverRunning := False, loadedFiles := JArr [], connectedClients := JArr [],
            serverStatusDot := False, serverStatusText := ''Server Stopped'',
            startServerBtn_disabled := False, stopServerBtn_disabled := True,
            loadedFilesContainer := EmptyState ''No media files loaded'',
            connectedClientsContainer := EmptyState ''No clients connected'',
            statusLog := statusLog s @ [(''Stopping server...'', ''info''),
                                        (''Server stopped'', ''info'')],
            notifications := notifications s @ [(''Server stopped'', ''info'')],
            requests := requests s @ [(''stop-server'', JObj [])]\<rparr>)"
proof -
  let ?s1 = "logMessage ''Stopping server...'' ''info'' s"
  have f: "fst (callRustCommand P server ''stop-server'' (JObj []) ?s1)
             = fst (callRustCommand P server ''stop-server'' (JObj []) s)"
    by (rule callRustCommand_fst_state)
  show ?thesis
    unfolding stopServer_try_def Let_def
    using assms f
    by (simp add: split_beta callRustCommand_snd updateLoadedFiles_def updateConnectedClients_def
        render_empty logMessage_def showNotification_def updateServerStatus_def)
qed

lemma stopServer_try_Err:
  assumes "\<not> truthy (field (fst (callRustCommand P server ''stop-server'' (JObj []) s)) ''success'')"
  shows "\<exists>msg. stopServer_try P server s =
     Inl (msg, s\<lparr>statusLog := statusLog s @ [(''Stopping server...'', ''info'')],
                 requests := requests s @ [(''stop-server'', JObj [])]\<rparr>)"
proof -
  let ?s1 = "logMessage ''Stopping server...'' ''info'' s"
  have f: "fst (callRustCommand P server ''stop-server'' (JObj []) ?s1)
             = fst (callRustCommand P server ''stop-server'' (JObj []) s)"
    by (rule callRustCommand_fst_state)
  show ?thesis
    unfolding stopServer_try_def Let_def
    using assms f
    by (simp add: split_beta callRustCommand_snd logMessage_def)
qed

text \<open>A call of \<^verbatim>\<open>stopServer\<close> either resets the hosting state or leaves it as it was.\<close>

lemma stopServer_hosting_cases:
  "hosting (stopServer P server s) = (False, JArr [], JArr [])
   \<or> hosting (stopServer P server s) = hosting s"
proof (cases "truthy (field (fst (callRustCommand P server ''stop-server'' (JObj []) s)) ''success'')")
  case True
  show ?thesis
    unfolding stopServer_def stopServer_try_Ok[OF True] by (simp add: hosting_def)
next
  case False
  from stopServer_try_Err[OF False] obtain msg where
    "stopServer_try P server s =
       Inl (msg, s\<lparr>statusLog := statusLog s @ [(''Stopping server...'', ''info'')],
                   requests := requests s @ [(''stop-server'', JObj [])]\<rparr>)"
    by blast
  then show ?thesis
    unfolding stopServer_def by (simp add: hosting_def logMessage_def showNotification_def)
qed

lemmas host_eval = startServer_def startServer_try_def stopServer_def stopServer_try_def
  updateLoadedFiles_def updateConnectedClients_def render_list_def js_length_def nullish_def
  updateServerStatus_def logMessage_def showNotification_def hosting_def new_app_def
  strip_quotes_def is_quote_def dquote_def plain_platform_def

text \<open>
  C6. When the inputs pass validation and the start-server command comes back as a
  failure with message \<open>m\<close>, whether a transport failure or a body with a falsy
  \<^verbatim>\<open>success\<close>, \<^verbatim>\<open>startServer\<close> returns normally, and the state afterwards is the state
  before with the request recorded, the log entries added, the last of them the error
  \<^verbatim>\<open>Failed to start server: m\<close>, and the same text as an error notification: the hosting
  flag, the loaded files and the connected peers are as before.
\<close>

theorem startServer_Err_keeps_state:
  assumes "port = serverPortInput s"
    and "directory = strip_quotes (trim (mediaDirectoryInput s))"
    and "payload = JObj [(''port'', (case parseInt P port of Some n \<Rightarrow> JNum n | None \<Rightarrow> JNull)),
                          (''directory'', JStr directory)]"
    and "port \<noteq> []" and "directory \<noteq> []" and "isValidDirectoryPath directory"
    and "as_result P ''Failed to start server''
           (fst (callRustCommand P server ''start-server'' payload s)) = Err m"
  shows "startServer P server s =
           s\<lparr>statusLog := statusLog s @
                 [(''Raw directory input: '' @ [dquote] @ mediaDirectoryInput s @ [dquote], ''info''),
                  (''Cleaned directory: '' @ [dquote] @ directory @ [dquote], ''info''),
                  (''Directory length: '' @ show_nat (length directory), ''info''),
                  (''Starting server on port '' @ port @ '' with directory: '' @ directory, ''info''),
                  (''Sending payload: '' @ stringify P payload, ''info''),
                  (''Failed to start server: '' @ m, ''error'')],
              notifications := notifications s @ [(''Failed to start server: '' @ m, ''error'')],
              requests := requests s @ [(''start-server'', payload)]\<rparr>
         \<and> hosting (startServer P server s) = hosting s"
proof -
  let ?response = "fst (callRustCommand P server ''start-server'' payload s)"
  from assms(7) have falsy: "\<not> truthy (field ?response ''success'')"
    and m: "m = message_of P (or_else (field ?response ''error'') (JStr ''Failed to start server''))"
    by (auto simp: as_result_def split: if_splits)
  note t = startServer_try_Err[OF falsy assms(3)]
  have eq: "startServer P server s =
           s\<lparr>statusLog := statusLog s @
                 [(''Raw directory input: '' @ [dquote] @ mediaDirectoryInput s @ [dquote], ''info''),
                  (''Cleaned directory: '' @ [dquote] @ directory @ [dquote], ''info''),
                  (''Directory length: '' @ show_nat (length directory), ''info''),
                  (''Starting server on port '' @ port @ '' with directory: '' @ directory, ''info''),
                  (''Sending payload: '' @ stringify P payload, ''info''),
                  (''Failed to start server: '' @ m, ''error'')],
              notifications := notifications s @ [(''Failed to start server: '' @ m, ''error'')],
              requests := requests s @ [(''start-server'', payload)]\<rparr>"
    unfolding startServer_def Let_def assms(1)[symmetric] assms(2)[symmetric]
    using assms(4,5,6) by (simp add: t m[symmetric] logMessage_def showNotification_def)
  show ?thesis unfolding eq by (simp add: hosting_def)
qed

text \<open>
  Two runs from a server that is hosting one file, with port 8080 and directory
  \<^verbatim>\<open>./media\<close>: the backend answers with status 500, and the backend reports a failure.
\<close>

theorem startServer_Err_keeps_state_witness:
  "isValidDirectoryPath ''./media''
   \<and> as_result plain_platform ''Failed to start server''
        (fst (callRustCommand plain_platform (replying (Responded 500 (NotJson '''')))
               ''start-server'' (JObj [(''port'', JNum 8080), (''directory'', JStr ''./media'')])
               (new_app\<lparr>serverRunning := True, loadedFiles := JArr [JStr ''a.mp4''],
                         mediaDirectoryInput := ''./media''\<rparr>)))
       = Err ''HTTP error! status: 500''
   \<and> hosting (startServer plain_platform (replying (Responded 500 (NotJson '''')))
                (new_app\<lparr>serverRunning := True, loadedFiles := JArr [JStr ''a.mp4''],
                          mediaDirectoryInput := ''./media''\<rparr>))
       = (True, JArr [JStr ''a.mp4''], JArr [])
   \<and> notifications (startServer plain_platform (replying (Responded 500 (NotJson '''')))
                (new_app\<lparr>serverRunning := True, loadedFiles := JArr [JStr ''a.mp4''],
                          mediaDirectoryInput := ''./media''\<rparr>))
       = [(''Failed to start server: HTTP error! status: 500'', ''error'')]
   \<and> hosting (startServer plain_platform
                (replying (Responded 200 (Json (JObj [(''success'', JBool False),
                                                     (''error'', JStr ''No such directory'')]))))
                (new_app\<lparr>serverRunning := True, loadedFiles := JArr [JStr ''a.mp4''],
                          mediaDirectoryInput := ''./media''\<rparr>))
       = (True, JArr [JStr ''a.mp4''], JArr [])
   \<and> notifications (startServer plain_platform
                (replying (Responded 200 (Json (JObj [(''success'', JBool False),
                                                     (''error'', JStr ''No such directory'')]))))
                (new_app\<lparr>serverRunning := True, loadedFiles := JArr [JStr ''a.mp4''],
                          mediaDirectoryInput := ''./media''\<rparr>))
       = [(''Failed to start server: No such directory'', ''error'')]"
proof -
  let ?s = "new_app\<lparr>serverRunning := True, loadedFiles := JArr [JStr ''a.mp4''],
                    mediaDirectoryInput := ''./media''\<rparr>"
  let ?payload = "JObj [(''port'', JNum 8080), (''directory'', JStr ''./media'')]"
  have v: "isValidDirectoryPath ''./media''"
    by (simp add: path_eval rx_eval)
  have port: "''8080'' = serverPortInput ?s"
    by (simp add: new_app_def)
  have dir: "''./media'' = strip_quotes (trim (mediaDirectoryInput ?s))"
    by (simp add: new_app_def trim_def is_space_def strip_quotes_def is_quote_def dquote_def)
  have pay: "?payload = JObj [(''port'', (case parseInt plain_platform ''8080'' of
                                           Some n \<Rightarrow> JNum n | None \<Rightarrow> JNull)),
                              (''directory'', JStr ''./media'')]"
  proof -
    have "parseInt plain_platform ''8080'' = Some 8080"
      by code_simp
    then show ?thesis by simp
  qed
  have n500: "show_nat 500 = ''500''"
    by (simp add: show_nat.simps)
  have e1: "as_result plain_platform ''Failed to start server''
              (fst (callRustCommand plain_platform (replying (Responded 500 (NotJson '''')))
                     ''start-server'' ?payload ?s)) = Err ''HTTP error! status: 500''"
    by (simp add: channel_eval n500)
  have e2: "as_result plain_platform ''Failed to start server''
              (fst (callRustCommand plain_platform
                     (replying (Responded 200 (Json (JObj [(''success'', JBool False),
                                                          (''error'', JStr ''No such directory'')]))))
                     ''start-server'' ?payload ?s)) = Err ''No such directory''"
    by (simp add: channel_eval)
  have h: "hosting ?s = (True, JArr [JStr ''a.mp4''], JArr [])"
    by (simp add: hosting_def new_app_def)
  have n: "notifications ?s = []"
    by (simp add: new_app_def)
  have c1: "''8080'' \<noteq> []" and c2: "''./media'' \<noteq> []"
    by simp_all
  note k1 = startServer_Err_keeps_state[OF port dir pay c1 c2 v e1]
  note k2 = startServer_Err_keeps_state[OF port dir pay c1 c2 v e2]
  have r1: "hosting (startServer plain_platform (replying (Responded 500 (NotJson ''''))) ?s)
              = hosting ?s"
    using k1 by (rule conjunct2)
  have r2: "hosting (startServer plain_platform
                (replying (Responded 200 (Json (JObj [(''success'', JBool False),
                                                     (''error'', JStr ''No such directory'')])))) ?s)
              = hosting ?s"
    using k2 by (rule conjunct2)
  have n1: "notifications (startServer plain_platform (replying (Responded 500 (NotJson ''''))) ?s)
              = [(''Failed to start server: HTTP error! status: 500'', ''error'')]"
    unfolding k1[THEN conjunct1] by (simp add: n)
  have n2: "notifications (startServer plain_platform
                (replying (Responded 200 (Json (JObj [(''success'', JBool False),
                                                     (''error'', JStr ''No such directory'')])))) ?s)
              = [(''Failed to start server: No such directory'', ''error'')]"
    unfolding k2[THEN conjunct1] by (simp add: n)
  show ?thesis
    using v e1 r1 r2 n1 n2 unfolding h by simp
qed

text \<open>
  C7. When the port is missing, or the directory is empty once trimmed and stripped of
  its quotes, or the path validator rejects it, \<^verbatim>\<open>startServer\<close> only writes to the log
  and shows one error notification: the state afterwards is the state before with those
  added. No request is handed to \<^verbatim>\<open>fetch\<close> and the hosting state is as before.
\<close>

theorem startServer_validation_blocks:
  assumes "directory = strip_quotes (trim (mediaDirectoryInput s))"
    and "serverPortInput s = [] \<or> directory = [] \<or> \<not> isValidDirectoryPath directory"
  shows "startServer P server s =
           s\<lparr>statusLog := statusLog s @
                 [(''Raw directory input: '' @ [dquote] @ mediaDirectoryInput s @ [dquote], ''info''),
                  (''Cleaned directory: '' @ [dquote] @ directory @ [dquote], ''info''),
                  (''Directory length: '' @ show_nat (length directory), ''info'')] @
                 (if serverPortInput s = [] then [(''Missing port number'', ''error'')]
                  else if directory = [] then [(''Missing directory path'', ''error'')]
                  else [(''Invalid directory path: '' @ directory, ''error''),
                        (''Use '' @ [dquote] @ ''Use Test Media'' @ [dquote]
                         @ '' button or enter a full path manually'', ''info'')]),
              notifications := notifications s @
                 [(if serverPortInput s = [] then ''Please enter a port number''
                   else if directory = [] then ''Please enter a directory path or select files''
                   else ''Please enter a valid directory path (e.g., f:'' @ [bslash] @ ''software''
                        @ [bslash] @ ''test_media)'', ''error'')]\<rparr>
         \<and> requests (startServer P server s) = requests s
         \<and> hosting (startServer P server s) = hosting s"
proof -
  have eq: "startServer P server s =
           s\<lparr>statusLog := statusLog s @
                 [(''Raw directory input: '' @ [dquote] @ mediaDirectoryInput s @ [dquote], ''info''),
                  (''Cleaned directory: '' @ [dquote] @ directory @ [dquote], ''info''),
                  (''Directory length: '' @ show_nat (length directory), ''info'')] @
                 (if serverPortInput s = [] then [(''Missing port number'', ''error'')]
                  else if directory = [] then [(''Missing directory path'', ''error'')]
                  else [(''Invalid directory path: '' @ directory, ''error''),
                        (''Use '' @ [dquote] @ ''Use Test Media'' @ [dquote]
                         @ '' button or enter a full path manually'', ''info'')]),
              notifications := notifications s @
                 [(if serverPortInput s = [] then ''Please enter a port number''
                   else if directory = [] then ''Please enter a directory path or select files''
                   else ''Please enter a valid directory path (e.g., f:'' @ [bslash] @ ''software''
                        @ [bslash] @ ''test_media)'', ''error'')]\<rparr>"
    unfolding startServer_def Let_def assms(1)[symmetric]
    using assms(2) by (auto simp add: logMessage_def showNotification_def)
  show ?thesis unfolding eq by (simp add: hosting_def)
qed

text \<open>
  Three runs against a backend that would accept the command: no port, a directory
  that is only a pair of quotes, and the directory \<^verbatim>\<open>abc\<close>.
\<close>

theorem startServer_validation_blocks_witness:
  "requests (startServer plain_platform
               (replying (Responded 200 (Json (JObj [(''success'', JBool True)]))))
               (new_app\<lparr>serverPortInput := '''', mediaDirectoryInput := ''./media''\<rparr>)) = []
   \<and> notifications (startServer plain_platform
               (replying (Responded 200 (Json (JObj [(''success'', JBool True)]))))
               (new_app\<lparr>serverPortInput := '''', mediaDirectoryInput := ''./media''\<rparr>))
       = [(''Please enter a port number'', ''error'')]
   \<and> strip_quotes (trim ('' '' @ [dquote, dquote] @ '' '')) = ''''
   \<and> requests (startServer plain_platform
               (replying (Responded 200 (Json (JObj [(''success'', JBool True)]))))
               (new_app\<lparr>mediaDirectoryInput := '' '' @ [dquote, dquote] @ '' ''\<rparr>)) = []
   \<and> notifications (startServer plain_platform
               (replying (Responded 200 (Json (JObj [(''success'', JBool True)]))))
               (new_app\<lparr>mediaDirectoryInput := '' '' @ [dquote, dquote] @ '' ''\<rparr>))
       = [(''Please enter a directory path or select files'', ''error'')]
   \<and> \<not> isValidDirectoryPath ''abc''
   \<and> requests (startServer plain_platform
               (replying (Responded 200 (Json (JObj [(''success'', JBool True)]))))
               (new_app\<lparr>mediaDirectoryInput := ''abc''\<rparr>)) = []
   \<and> serverRunning (startServer plain_platform
               (replying (Responded 200 (Json (JObj [(''success'', JBool True)]))))
               (new_app\<lparr>mediaDirectoryInput := ''abc''\<rparr>)) = False"
proof -
  let ?server = "replying (Responded 200 (Json (JObj [(''success'', JBool True)])))"
  have d1: "''./media'' = strip_quotes (trim (mediaDirectoryInput
              (new_app\<lparr>serverPortInput := '''', mediaDirectoryInput := ''./media''\<rparr>)))"
    by (simp add: new_app_def trim_def is_space_def strip_quotes_def is_quote_def dquote_def)
  have q: "strip_quotes (trim ('' '' @ [dquote, dquote] @ '' '')) = ''''"
    by (simp add: trim_def is_space_def strip_quotes_def is_quote_def dquote_def)
  have d2: "'''' = strip_quotes (trim (mediaDirectoryInput
              (new_app\<lparr>mediaDirectoryInput := '' '' @ [dquote, dquote] @ '' ''\<rparr>)))"
    using q by simp
  have d3: "''abc'' = strip_quotes (trim (mediaDirectoryInput
              (new_app\<lparr>mediaDirectoryInput := ''abc''\<rparr>)))"
    by (simp add: new_app_def trim_def is_space_def strip_quotes_def is_quote_def dquote_def)
  have v: "\<not> isValidDirectoryPath ''abc''"
    by (simp add: path_eval rx_eval)
  have r1: "requests (startServer plain_platform ?server
               (new_app\<lparr>serverPortInput := '''', mediaDirectoryInput := ''./media''\<rparr>)) = []
    \<and> notifications (startServer plain_platform ?server
               (new_app\<lparr>serverPortInput := '''', mediaDirectoryInput := ''./media''\<rparr>))
       = [(''Please enter a port number'', ''error'')]"
    using startServer_validation_blocks[OF d1, of plain_platform ?server]
    by (simp add: new_app_def)
  have r2: "requests (startServer plain_platform ?server
               (new_app\<lparr>mediaDirectoryInput := '' '' @ [dquote, dquote] @ '' ''\<rparr>)) = []
    \<and> notifications (startServer plain_platform ?server
               (new_app\<lparr>mediaDirectoryInput := '' '' @ [dquote, dquote] @ '' ''\<rparr>))
       = [(''Please enter a directory path or select files'', ''error'')]"
    using startServer_validation_blocks[OF d2, of plain_platform ?server]
    by (simp add: new_app_def)
  have r3: "requests (startServer plain_platform ?server
               (new_app\<lparr>mediaDirectoryInput := ''abc''\<rparr>)) = []
    \<and> serverRunning (startServer plain_platform ?server
               (new_app\<lparr>mediaDirectoryInput := ''abc''\<rparr>)) = False"
    using startServer_validation_blocks[OF d3, of plain_platform ?server] v
    by (simp add: new_app_def hosting_def)
  show ?thesis using r1 r2 r3 q v by simp
qed

text \<open>
  C8. When stop-server comes back with a truthy \<^verbatim>\<open>success\<close>, \<^verbatim>\<open>stopServer\<close> ends its
  \<^verbatim>\<open>try\<close> block without an exception and leaves the hosting flag false and both lists
  empty; a further \<^verbatim>\<open>stopServer\<close>, whatever the backend answers to it, ends in that same
  hosting state.
\<close>

theorem stopServer_Ok_idempotent:
  assumes "as_result P ''Failed to stop server''
             (fst (callRustCommand P server ''stop-server'' (JObj []) s)) = Ok r"
  shows "hosting (stopServer P server s) = (False, JArr [], JArr [])
       \<and> \<not> isl (stopServer_try P server s)
       \<and> hosting (stopServer P server' (stopServer P server s)) = hosting (stopServer P server s)"
proof -
  from assms
  have t: "truthy (field (fst (callRustCommand P server ''stop-server'' (JObj []) s)) ''success'')"
    by (auto simp: as_result_def split: if_splits)
  have h: "hosting (stopServer P server s) = (False, JArr [], JArr [])"
    unfolding stopServer_def stopServer_try_Ok[OF t] by (simp add: hosting_def)
  have n: "\<not> isl (stopServer_try P server s)"
    unfolding stopServer_try_Ok[OF t] by simp
  have "hosting (stopServer P server' (stopServer P server s)) = (False, JArr [], JArr [])"
    using stopServer_hosting_cases[of P server' "stopServer P server s"] h by auto
  with h n show ?thesis by simp
qed

text \<open>
  A server hosting one file with one peer is stopped, then stopped again twice: once the
  backend accepts the second stop, once it refuses it.
\<close>

theorem stopServer_Ok_idempotent_witness:
  "as_result plain_platform ''Failed to stop server''
     (fst (callRustCommand plain_platform
            (replying (Responded 200 (Json (JObj [(''success'', JBool True)]))))
            ''stop-server'' (JObj [])
            (new_app\<lparr>serverRunning := True, loadedFiles := JArr [JStr ''a.mp4''],
                      connectedClients := JArr [JStr ''client1'']\<rparr>)))
     = Ok [(''success'', JBool True)]
   \<and> hosting (stopServer plain_platform
                (replying (Responded 200 (Json (JObj [(''success'', JBool True)]))))
                (new_app\<lparr>serverRunning := True, loadedFiles := JArr [JStr ''a.mp4''],
                          connectedClients := JArr [JStr ''client1'']\<rparr>))
     = (False, JArr [], JArr [])
   \<and> hosting (stopServer plain_platform
                (replying (Responded 200 (Json (JObj [(''success'', JBool True)]))))
                (stopServer plain_platform
                   (replying (Responded 200 (Json (JObj [(''success'', JBool True)]))))
                   (new_app\<lparr>serverRunning := True, loadedFiles := JArr [JStr ''a.mp4''],
                             connectedClients := JArr [JStr ''client1'']\<rparr>)))
     = (False, JArr [], JArr [])
   \<and> hosting (stopServer plain_platform
                (replying (Responded 200 (Json (JObj [(''success'', JBool False),
                                                     (''error'', JStr ''Server not running'')]))))
                (stopServer plain_platform
                   (replying (Responded 200 (Json (JObj [(''success'', JBool True)]))))
                   (new_app\<lparr>serverRunning := True, loadedFiles := JArr [JStr ''a.mp4''],
                             connectedClients := JArr [JStr ''client1'']\<rparr>)))
     = (False, JArr [], JArr [])"
proof -
  let ?s = "new_app\<lparr>serverRunning := True, loadedFiles := JArr [JStr ''a.mp4''],
                    connectedClients := JArr [JStr ''client1'']\<rparr>"
  let ?yes = "replying (Responded 200 (Json (JObj [(''success'', JBool True)])))"
  let ?no = "replying (Responded 200 (Json (JObj [(''success'', JBool False),
                                                 (''error'', JStr ''Server not running'')])))"
  have e: "as_result plain_platform ''Failed to stop server''
             (fst (callRustCommand plain_platform ?yes ''stop-server'' (JObj []) ?s))
           = Ok [(''success'', JBool True)]"
    by (simp add: channel_eval)
  show ?thesis
    using e stopServer_Ok_idempotent[OF e, of ?yes] stopServer_Ok_idempotent[OF e, of ?no]
    by simp
qed


section \<open>Properties of the media player\<close>












text \<open>
  The file name reaches the markup unescaped: a name that closes the \<^verbatim>\<open>alt\<close> attribute
  and the image tag puts a video tag into the markup of an image payload.
\<close>

lemma loadMediaInPlayer_filename_unescaped:
  "has_media_tag
     (mediaPlayerContainer (projr (loadMediaInPlayer plain_platform
        \<lparr>filename = [dquote] @ ''><video autoplay src=x>'', data = ''/w=='',
         mediaType = ''image''\<rparr> new_app)))"
  by code_simp

end
